theory Spec2Isabelle
  imports Main
begin

section \<open>Fused rotary positional embedding: the validating dispatcher\<close>

text \<open>
  The source, \<^verbatim>\<open>csrc/megatron/fused_rotary_positional_embedding.cpp\<close>, holds two functions,
  \<^verbatim>\<open>fused_rope::fwd\<close> and \<^verbatim>\<open>fused_rope::bwd\<close>. Each runs ten \<^verbatim>\<open>TORCH_CHECK\<close>s over the
  shapes and element types of its three tensor arguments and then returns the result of
  an external kernel (\<^verbatim>\<open>fwd_cuda\<close>, \<^verbatim>\<open>bwd_cuda\<close>), which the file only declares.
\<close>

subsection \<open>Tensors\<close>

text \<open>
  The element types of the tensor library (\<^verbatim>\<open>c10::ScalarType\<close>). The source only compares
  two of them for equality.
\<close>

datatype ScalarType =
  Byte | Char | Short | Int | Long | Half | Float | Double
  | ComplexHalf | ComplexFloat | ComplexDouble | Bool | BFloat16

text \<open>
  A tensor as the source sees it: the vector of its per-dimension sizes (\<^verbatim>\<open>int64_t\<close>
  values, which the source compares and never computes with, hence \<^typ>\<open>int\<close>), its element
  type, and its contents, of a type \<open>'d\<close> that the model leaves open.
\<close>

record 'd Tensor =
  sizes :: "int list"
  scalar_type :: ScalarType
  storage :: 'd

text \<open>
  What a call can raise: \<^verbatim>\<open>c10::Error\<close> with the message of a failed \<^verbatim>\<open>TORCH_CHECK\<close>
  (the specification's \<^emph>\<open>InvalidArgument\<close>), and the index error of \<^verbatim>\<open>Tensor::size\<close>
  for a dimension that the tensor does not have.
\<close>

datatype error = Error string | IndexError

text \<open>\<^verbatim>\<open>Tensor::dim()\<close>: the number of dimensions.\<close>

definition dim :: "'d Tensor \<Rightarrow> int" where
  "dim t = int (length (sizes t))"

text \<open>
  \<^verbatim>\<open>Tensor::size(d)\<close>: the size of dimension \<open>d\<close>. A negative \<open>d\<close> counts from the last
  dimension; a \<open>d\<close> outside \<open>[-dim, dim - 1]\<close> raises (for a tensor with no dimension,
  every \<open>d\<close> does).
\<close>

definition size_dim :: "'d Tensor \<Rightarrow> int \<Rightarrow> error + int" where
  "size_dim t d =
     (let n = dim t in
      if d < - n \<or> n \<le> d then Inl IndexError
      else Inr (sizes t ! nat (if d < 0 then d + n else d)))"

subsection \<open>Raising and sequencing\<close>

text \<open>
  An expression of the source either has a value or raises. \<open>bind\<close> evaluates one
  expression and hands its value on; a raise ends the evaluation.
\<close>

fun bind :: "error + 'a \<Rightarrow> ('a \<Rightarrow> error + 'b) \<Rightarrow> error + 'b" where
  "bind (Inl e) f = Inl e"
| "bind (Inr x) f = f x"

text \<open>
  The comparisons \<^verbatim>\<open>==\<close> and \<^verbatim>\<open>>=\<close> of two expressions that may raise. The language
  leaves open which operand is evaluated first; the operands here can only raise the one
  index error, so the result is the same in either order.
\<close>

definition eq_op :: "error + 'a \<Rightarrow> error + 'a \<Rightarrow> error + bool" where
  "eq_op a b = bind a (\<lambda>x. bind b (\<lambda>y. Inr (x = y)))"

definition ge_op :: "error + int \<Rightarrow> error + int \<Rightarrow> error + bool" where
  "ge_op a b = bind a (\<lambda>x. bind b (\<lambda>y. Inr (x \<ge> y)))"

text \<open>\<^verbatim>\<open>&&\<close>: the right operand is evaluated only when the left one is true.\<close>

definition and_op :: "error + bool \<Rightarrow> error + bool \<Rightarrow> error + bool" where
  "and_op a b = bind a (\<lambda>x. if x then b else Inr False)"

text \<open>\<^verbatim>\<open>TORCH_CHECK(cond, msg)\<close>: raises \<^verbatim>\<open>c10::Error\<close> with \<open>msg\<close> unless \<open>cond\<close> holds.\<close>

definition TORCH_CHECK :: "error + bool \<Rightarrow> string \<Rightarrow> error + unit" where
  "TORCH_CHECK cond msg = bind cond (\<lambda>b. if b then Inr () else Inl (Error msg))"

text \<open>Statement sequencing: the second statement runs when the first did not raise.\<close>

definition seq :: "error + unit \<Rightarrow> error + 'a \<Rightarrow> error + 'a" where
  "seq a b = bind a (\<lambda>_. b)"

subsection \<open>The external kernels\<close>

text \<open>
  \<^verbatim>\<open>fwd_cuda\<close> and \<^verbatim>\<open>bwd_cuda\<close> are declared in the source and defined elsewhere, so the
  model takes them as a parameter: a function of the four arguments and of the state of
  the world \<open>'w\<close> (device memory, streams), giving an outcome \<open>'r\<close> (the tensor returned, or
  whatever the kernel raises) and the new state of the world.
\<close>

type_synonym ('d, 'w, 'r) kernel =
  "'d Tensor \<Rightarrow> 'd Tensor \<Rightarrow> 'd Tensor \<Rightarrow> bool \<Rightarrow> 'w \<Rightarrow> 'r \<times> 'w"

subsection \<open>\<^verbatim>\<open>fused_rope::fwd\<close>\<close>

text \<open>Lines 30 to 47 of the source: the ten checks, in the order of the source.\<close>

definition fwd_checks :: "'d Tensor \<Rightarrow> 'd Tensor \<Rightarrow> 'd Tensor \<Rightarrow> error + unit" where
  "fwd_checks input cos sin =
     seq (TORCH_CHECK (eq_op (Inr (dim input)) (Inr 4)) ''expected 4D tensor'')
    (seq (TORCH_CHECK (eq_op (Inr (dim cos)) (Inr 4)) ''expected 4D tensor'')
    (seq (TORCH_CHECK (eq_op (Inr (dim sin)) (Inr 4)) ''expected 4D tensor'')
    (seq (TORCH_CHECK (eq_op (size_dim input 0) (size_dim cos 0))
            ''expected input and cos tensor have the same sequence length'')
    (seq (TORCH_CHECK (eq_op (size_dim input 0) (size_dim sin 0))
            ''expected input and sin tensor have the same sequence length'')
    (seq (TORCH_CHECK (and_op (eq_op (size_dim cos 1) (Inr 1)) (eq_op (size_dim cos 2) (Inr 1)))
            ''expected the second and third dims of the cos tensor equal 1'')
    (seq (TORCH_CHECK (and_op (eq_op (size_dim sin 1) (Inr 1)) (eq_op (size_dim sin 2) (Inr 1)))
            ''expected the second and third dims of the sin tensor equal 1'')
    (seq (TORCH_CHECK (eq_op (size_dim cos 3) (size_dim sin 3))
            ''expected cos and sin tensor have the same last dim'')
    (seq (TORCH_CHECK (ge_op (size_dim input 3) (size_dim cos 3))
            ''expected the last dim of the input tensor equals or is greater than the cos tensor'')
         (TORCH_CHECK (eq_op (Inr (scalar_type cos)) (Inr (scalar_type sin)))
            ''expected cos and sin tensor have the same dtype'')))))))))"

text \<open>
  The whole function: a failed check raises and leaves the world as it was; otherwise
  line 49 returns what \<^verbatim>\<open>fwd_cuda(input, cos, sin, transpose_output)\<close> returns.
\<close>

definition fwd ::
  "('d, 'w, 'r) kernel \<Rightarrow> 'd Tensor \<Rightarrow> 'd Tensor \<Rightarrow> 'd Tensor \<Rightarrow> bool \<Rightarrow> 'w \<Rightarrow> (error + 'r) \<times> 'w"
where
  "fwd fwd_cuda input cos sin transpose_output w =
     (case fwd_checks input cos sin of
        Inl e \<Rightarrow> (Inl e, w)
      | Inr _ \<Rightarrow>
          (case fwd_cuda input cos sin transpose_output w of (r, w') \<Rightarrow> (Inr r, w')))"

subsection \<open>\<^verbatim>\<open>fused_rope::bwd\<close>\<close>

text \<open>Lines 54 to 73 of the source.\<close>

definition bwd_checks :: "'d Tensor \<Rightarrow> 'd Tensor \<Rightarrow> 'd Tensor \<Rightarrow> error + unit" where
  "bwd_checks output_grads cos sin =
     seq (TORCH_CHECK (eq_op (Inr (dim output_grads)) (Inr 4)) ''expected 4D tensor'')
    (seq (TORCH_CHECK (eq_op (Inr (dim cos)) (Inr 4)) ''expected 4D tensor'')
    (seq (TORCH_CHECK (eq_op (Inr (dim sin)) (Inr 4)) ''expected 4D tensor'')
    (seq (TORCH_CHECK (eq_op (size_dim output_grads 0) (size_dim cos 0))
            ''expected output_grads and cos tensor have the same sequence length'')
    (seq (TORCH_CHECK (eq_op (size_dim output_grads 0) (size_dim sin 0))
            ''expected output_grads and sin tensor have the same sequence length'')
    (seq (TORCH_CHECK (and_op (eq_op (size_dim cos 1) (Inr 1)) (eq_op (size_dim cos 2) (Inr 1)))
            ''expected the second and third dims of the cos tensor equal 1'')
    (seq (TORCH_CHECK (and_op (eq_op (size_dim sin 1) (Inr 1)) (eq_op (size_dim sin 2) (Inr 1)))
            ''expected the second and third dims of the sin tensor equal 1'')
    (seq (TORCH_CHECK (eq_op (size_dim cos 3) (size_dim sin 3))
            ''expected cos and sin tensor have the same last dim'')
    (seq (TORCH_CHECK (ge_op (size_dim output_grads 3) (size_dim cos 3))
            ''expected the last dim of the output_grads tensor equals or is greater than the cos tensor'')
         (TORCH_CHECK (eq_op (Inr (scalar_type cos)) (Inr (scalar_type sin)))
            ''expected cos and sin tensor have the same dtype'')))))))))"

definition bwd ::
  "('d, 'w, 'r) kernel \<Rightarrow> 'd Tensor \<Rightarrow> 'd Tensor \<Rightarrow> 'd Tensor \<Rightarrow> bool \<Rightarrow> 'w \<Rightarrow> (error + 'r) \<times> 'w"
where
  "bwd bwd_cuda output_grads cos sin transpose_output w =
     (case bwd_checks output_grads cos sin of
        Inl e \<Rightarrow> (Inl e, w)
      | Inr _ \<Rightarrow>
          (case bwd_cuda output_grads cos sin transpose_output w of (r, w') \<Rightarrow> (Inr r, w')))"

subsection \<open>Observing the calls of a kernel\<close>

text \<open>
  A kernel that also records each of its calls: the world becomes the log of the calls
  made so far, paired with the world of the kernel observed.
\<close>

type_synonym 'd call = "'d Tensor \<times> 'd Tensor \<times> 'd Tensor \<times> bool"

definition spy :: "('d, 'w, 'r) kernel \<Rightarrow> ('d, 'd call list \<times> 'w, 'r) kernel" where
  "spy k input cos sin transpose_output lw =
     (case lw of (log, w) \<Rightarrow>
        (case k input cos sin transpose_output w of
           (r, w') \<Rightarrow> (r, (log @ [(input, cos, sin, transpose_output)], w'))))"

subsection \<open>The invariants of the specification\<close>

text \<open>
  Section 3 of the specification, in its words: the three ranks are 4; dimension 0 of
  Input, Cos and Sin agree; dimensions 1 and 2 of Cos and of Sin are 1; dimension 3 of
  Cos and Sin agree; dimension 3 of Input is at least that of Cos; Cos and Sin have the
  same element type.
\<close>

definition rank :: "'d Tensor \<Rightarrow> nat" where
  "rank t = length (sizes t)"

definition size0 :: "'d Tensor \<Rightarrow> int" where
  "size0 t = sizes t ! 0"

definition size1 :: "'d Tensor \<Rightarrow> int" where
  "size1 t = sizes t ! 1"

definition size2 :: "'d Tensor \<Rightarrow> int" where
  "size2 t = sizes t ! 2"

definition size3 :: "'d Tensor \<Rightarrow> int" where
  "size3 t = sizes t ! 3"


definition dtype :: "'d Tensor \<Rightarrow> ScalarType" where
  "dtype t = scalar_type t"

definition ranks_are_4 :: "'d Tensor \<Rightarrow> 'd Tensor \<Rightarrow> 'd Tensor \<Rightarrow> bool" where
  "ranks_are_4 input cos sin \<longleftrightarrow> rank input = 4 \<and> rank cos = 4 \<and> rank sin = 4"

definition section3_invariants :: "'d Tensor \<Rightarrow> 'd Tensor \<Rightarrow> 'd Tensor \<Rightarrow> bool" where
  "section3_invariants input cos sin \<longleftrightarrow>
     ranks_are_4 input cos sin \<and>
     size0 input = size0 cos \<and> size0 input = size0 sin \<and>
     size1 cos = 1 \<and> size2 cos = 1 \<and>
     size1 sin = 1 \<and> size2 sin = 1 \<and>
     size3 cos = size3 sin \<and>
     size3 input \<ge> size3 cos \<and>
     dtype cos = dtype sin"

text \<open>The same, leaving out the comparison of the two widths (dimension 3 of Input and of Cos).\<close>

definition invariants_but_width :: "'d Tensor \<Rightarrow> 'd Tensor \<Rightarrow> 'd Tensor \<Rightarrow> bool" where
  "invariants_but_width input cos sin \<longleftrightarrow>
     ranks_are_4 input cos sin \<and>
     size0 input = size0 cos \<and> size0 input = size0 sin \<and>
     size1 cos = 1 \<and> size2 cos = 1 \<and>
     size1 sin = 1 \<and> size2 sin = 1 \<and>
     size3 cos = size3 sin \<and>
     dtype cos = dtype sin"

text \<open>The same as section 3, leaving out the comparison of the element types of Cos and Sin.\<close>

definition invariants_but_dtype :: "'d Tensor \<Rightarrow> 'd Tensor \<Rightarrow> 'd Tensor \<Rightarrow> bool" where
  "invariants_but_dtype input cos sin \<longleftrightarrow>
     ranks_are_4 input cos sin \<and>
     size0 input = size0 cos \<and> size0 input = size0 sin \<and>
     size1 cos = 1 \<and> size2 cos = 1 \<and>
     size1 sin = 1 \<and> size2 sin = 1 \<and>
     size3 cos = size3 sin \<and>
     size3 input \<ge> size3 cos"

subsection \<open>The validation order of the specification\<close>

text \<open>
  The checks as the specification lists them: the ranks of Input, Cos and Sin; the
  sequence length against Cos, then against Sin; the broadcast dimensions of Cos, then of
  Sin; the last dimensions of Cos and Sin; the order of the widths; the element types.
\<close>

datatype check =
  RankInput | RankCos | RankSin | SeqLenCos | SeqLenSin
  | BroadcastCos | BroadcastSin | LastDimEqual | WidthOrder | DtypeEqual

definition validation_order :: "check list" where
  "validation_order =
     [RankInput, RankCos, RankSin, SeqLenCos, SeqLenSin,
      BroadcastCos, BroadcastSin, LastDimEqual, WidthOrder, DtypeEqual]"

fun violated :: "check \<Rightarrow> 'd Tensor \<Rightarrow> 'd Tensor \<Rightarrow> 'd Tensor \<Rightarrow> bool" where
  "violated RankInput input cos sin = (rank input \<noteq> 4)"
| "violated RankCos input cos sin = (rank cos \<noteq> 4)"
| "violated RankSin input cos sin = (rank sin \<noteq> 4)"
| "violated SeqLenCos input cos sin = (size0 input \<noteq> size0 cos)"
| "violated SeqLenSin input cos sin = (size0 input \<noteq> size0 sin)"
| "violated BroadcastCos input cos sin = (\<not> (size1 cos = 1 \<and> size2 cos = 1))"
| "violated BroadcastSin input cos sin = (\<not> (size1 sin = 1 \<and> size2 sin = 1))"
| "violated LastDimEqual input cos sin = (size3 cos \<noteq> size3 sin)"
| "violated WidthOrder input cos sin = (\<not> size3 input \<ge> size3 cos)"
| "violated DtypeEqual input cos sin = (dtype cos \<noteq> dtype sin)"

definition first_violation :: "'d Tensor \<Rightarrow> 'd Tensor \<Rightarrow> 'd Tensor \<Rightarrow> check option" where
  "first_violation input cos sin = find (\<lambda>v. violated v input cos sin) validation_order"

definition is_rank_check :: "check \<Rightarrow> bool" where
  "is_rank_check v \<longleftrightarrow> v = RankInput \<or> v = RankCos \<or> v = RankSin"

text \<open>The message of the source at each check: lines 30 to 47 for \<^verbatim>\<open>fwd\<close>.\<close>

fun fwd_message :: "check \<Rightarrow> string" where
  "fwd_message RankInput = ''expected 4D tensor''"
| "fwd_message RankCos = ''expected 4D tensor''"
| "fwd_message RankSin = ''expected 4D tensor''"
| "fwd_message SeqLenCos = ''expected input and cos tensor have the same sequence length''"
| "fwd_message SeqLenSin = ''expected input and sin tensor have the same sequence length''"
| "fwd_message BroadcastCos = ''expected the second and third dims of the cos tensor equal 1''"
| "fwd_message BroadcastSin = ''expected the second and third dims of the sin tensor equal 1''"
| "fwd_message LastDimEqual = ''expected cos and sin tensor have the same last dim''"
| "fwd_message WidthOrder =
     ''expected the last dim of the input tensor equals or is greater than the cos tensor''"
| "fwd_message DtypeEqual = ''expected cos and sin tensor have the same dtype''"

text \<open>Lines 54 to 73 for \<^verbatim>\<open>bwd\<close>.\<close>

fun bwd_message :: "check \<Rightarrow> string" where
  "bwd_message RankInput = ''expected 4D tensor''"
| "bwd_message RankCos = ''expected 4D tensor''"
| "bwd_message RankSin = ''expected 4D tensor''"
| "bwd_message SeqLenCos =
     ''expected output_grads and cos tensor have the same sequence length''"
| "bwd_message SeqLenSin =
     ''expected output_grads and sin tensor have the same sequence length''"
| "bwd_message BroadcastCos = ''expected the second and third dims of the cos tensor equal 1''"
| "bwd_message BroadcastSin = ''expected the second and third dims of the sin tensor equal 1''"
| "bwd_message LastDimEqual = ''expected cos and sin tensor have the same last dim''"
| "bwd_message WidthOrder =
     ''expected the last dim of the output_grads tensor equals or is greater than the cos tensor''"
| "bwd_message DtypeEqual = ''expected cos and sin tensor have the same dtype''"

subsection \<open>Outcomes\<close>

text \<open>
  The outcome of the validation in a result of \<^const>\<open>fwd\<close> or \<^const>\<open>bwd\<close>: the error raised,
  or \<open>None\<close> when every check passed and the kernel was called.
\<close>

definition validation_outcome :: "(error + 'r) \<times> 'w \<Rightarrow> error option" where
  "validation_outcome res = (case fst res of Inl e \<Rightarrow> Some e | Inr _ \<Rightarrow> None)"

text \<open>The result of a call that goes through to the kernel \<open>k\<close>.\<close>

definition delegated ::
  "('d, 'w, 'r) kernel \<Rightarrow> 'd Tensor \<Rightarrow> 'd Tensor \<Rightarrow> 'd Tensor \<Rightarrow> bool \<Rightarrow> 'w \<Rightarrow> (error + 'r) \<times> 'w"
where
  "delegated k a cos sin transpose_output w =
     (Inr (fst (k a cos sin transpose_output w)), snd (k a cos sin transpose_output w))"

text \<open>The kinds of error: the specification's \<^emph>\<open>InvalidArgument\<close>, and an index out of range.\<close>

datatype error_kind = InvalidArgument | IndexOutOfRange

fun kind_of :: "error \<Rightarrow> error_kind" where
  "kind_of (Error msg) = InvalidArgument"
| "kind_of IndexError = IndexOutOfRange"

subsection \<open>Replacing Input by OutputGrads in a message\<close>

text \<open>
  \<open>replace_skip old new n s\<close> drops the first \<open>n\<close> characters of \<open>s\<close> and then replaces
  every occurrence of \<open>old\<close>, from left to right, by \<open>new\<close>.
\<close>

fun replace_skip :: "string \<Rightarrow> string \<Rightarrow> nat \<Rightarrow> string \<Rightarrow> string" where
  "replace_skip old new n [] = []"
| "replace_skip old new (Suc n) (c # cs) = replace_skip old new n cs"
| "replace_skip old new 0 (c # cs) =
     (if old \<noteq> [] \<and> take (length old) (c # cs) = old
      then new @ replace_skip old new (length old - 1) cs
      else c # replace_skip old new 0 cs)"

definition replace :: "string \<Rightarrow> string \<Rightarrow> string \<Rightarrow> string" where
  "replace old new s = replace_skip old new 0 s"

fun rename_input :: "error \<Rightarrow> error" where
  "rename_input (Error msg) = Error (replace ''input'' ''output_grads'' msg)"
| "rename_input IndexError = IndexError"

subsection \<open>Test data\<close>

text \<open>
  A kernel for the examples: it returns its first argument with the contents reversed
  when the flag is set, and counts its calls in the world.
\<close>

definition test_kernel :: "(nat list, nat, nat list Tensor) kernel" where
  "test_kernel a cos sin transpose_output w =
     (a\<lparr>storage := (if transpose_output then rev (storage a) else storage a)\<rparr>, Suc w)"

definition tensor :: "int list \<Rightarrow> ScalarType \<Rightarrow> nat list Tensor" where
  "tensor shape ty = \<lparr>sizes = shape, scalar_type = ty, storage = [1, 2, 3]\<rparr>"

section \<open>Properties\<close>

subsection \<open>What the checks compute\<close>

lemma size_dim_rank4:
  "rank t = 4 \<Longrightarrow> size_dim t 0 = Inr (size0 t) \<and> size_dim t 1 = Inr (size1 t)
     \<and> size_dim t 2 = Inr (size2 t) \<and> size_dim t 3 = Inr (size3 t)"
  by (simp add: size_dim_def dim_def rank_def size0_def size1_def size2_def size3_def)

lemma dim_eq_4: "dim t = 4 \<longleftrightarrow> rank t = 4"
  by (simp add: dim_def rank_def)

text \<open>The checks as one chain of tests: the first test that fails gives the message.\<close>

lemma fwd_checks_chain:
  "fwd_checks input cos sin =
     (if rank input \<noteq> 4 then Inl (Error ''expected 4D tensor'')
      else if rank cos \<noteq> 4 then Inl (Error ''expected 4D tensor'')
      else if rank sin \<noteq> 4 then Inl (Error ''expected 4D tensor'')
      else if size0 input \<noteq> size0 cos
        then Inl (Error ''expected input and cos tensor have the same sequence length'')
      else if size0 input \<noteq> size0 sin
        then Inl (Error ''expected input and sin tensor have the same sequence length'')
      else if size1 cos \<noteq> 1 \<or> size2 cos \<noteq> 1
        then Inl (Error ''expected the second and third dims of the cos tensor equal 1'')
      else if size1 sin \<noteq> 1 \<or> size2 sin \<noteq> 1
        then Inl (Error ''expected the second and third dims of the sin tensor equal 1'')
      else if size3 cos \<noteq> size3 sin
        then Inl (Error ''expected cos and sin tensor have the same last dim'')
      else if size3 input < size3 cos
        then Inl (Error ''expected the last dim of the input tensor equals or is greater than the cos tensor'')
      else if dtype cos \<noteq> dtype sin
        then Inl (Error ''expected cos and sin tensor have the same dtype'')
      else Inr ())"
  by (simp add: fwd_checks_def seq_def TORCH_CHECK_def eq_op_def ge_op_def and_op_def
      dim_eq_4 size_dim_rank4 dtype_def del: One_nat_def)

lemma bwd_checks_chain:
  "bwd_checks output_grads cos sin =
     (if rank output_grads \<noteq> 4 then Inl (Error ''expected 4D tensor'')
      else if rank cos \<noteq> 4 then Inl (Error ''expected 4D tensor'')
      else if rank sin \<noteq> 4 then Inl (Error ''expected 4D tensor'')
      else if size0 output_grads \<noteq> size0 cos
        then Inl (Error ''expected output_grads and cos tensor have the same sequence length'')
      else if size0 output_grads \<noteq> size0 sin
        then Inl (Error ''expected output_grads and sin tensor have the same sequence length'')
      else if size1 cos \<noteq> 1 \<or> size2 cos \<noteq> 1
        then Inl (Error ''expected the second and third dims of the cos tensor equal 1'')
      else if size1 sin \<noteq> 1 \<or> size2 sin \<noteq> 1
        then Inl (Error ''expected the second and third dims of the sin tensor equal 1'')
      else if size3 cos \<noteq> size3 sin
        then Inl (Error ''expected cos and sin tensor have the same last dim'')
      else if size3 output_grads < size3 cos
        then Inl (Error ''expected the last dim of the output_grads tensor equals or is greater than the cos tensor'')
      else if dtype cos \<noteq> dtype sin
        then Inl (Error ''expected cos and sin tensor have the same dtype'')
      else Inr ())"
  by (simp add: bwd_checks_def seq_def TORCH_CHECK_def eq_op_def ge_op_def and_op_def
      dim_eq_4 size_dim_rank4 dtype_def del: One_nat_def)

text \<open>The first violation in the specification's order, as the same chain of tests.\<close>

lemma first_violation_chain:
  "first_violation input cos sin =
     (if rank input \<noteq> 4 then Some RankInput
      else if rank cos \<noteq> 4 then Some RankCos
      else if rank sin \<noteq> 4 then Some RankSin
      else if size0 input \<noteq> size0 cos then Some SeqLenCos
      else if size0 input \<noteq> size0 sin then Some SeqLenSin
      else if size1 cos \<noteq> 1 \<or> size2 cos \<noteq> 1 then Some BroadcastCos
      else if size1 sin \<noteq> 1 \<or> size2 sin \<noteq> 1 then Some BroadcastSin
      else if size3 cos \<noteq> size3 sin then Some LastDimEqual
      else if size3 input < size3 cos then Some WidthOrder
      else if dtype cos \<noteq> dtype sin then Some DtypeEqual
      else None)"
  by (simp add: first_violation_def validation_order_def not_le)

lemma fwd_checks_first_violation:
  "fwd_checks input cos sin =
     (case first_violation input cos sin of
        Some v \<Rightarrow> Inl (Error (fwd_message v))
      | None \<Rightarrow> Inr ())"
  unfolding fwd_checks_chain first_violation_chain by simp

lemma first_violation_None:
  "first_violation input cos sin = None \<longleftrightarrow> section3_invariants input cos sin"
  unfolding first_violation_chain section3_invariants_def ranks_are_4_def
  by (auto simp: not_less)

lemma fwd_checks_ok:
  "fwd_checks input cos sin = Inr () \<longleftrightarrow> section3_invariants input cos sin"
  unfolding fwd_checks_first_violation first_violation_None [symmetric]
  by (simp split: option.split)

lemma fwd_valid:
  "section3_invariants input cos sin \<Longrightarrow>
     fwd k input cos sin t w = delegated k input cos sin t w"
  by (simp add: fwd_def delegated_def fwd_checks_ok [THEN iffD2] split: prod.split)

lemma fwd_invalid:
  "first_violation input cos sin = Some v \<Longrightarrow>
     fwd k input cos sin t w = (Inl (Error (fwd_message v)), w)"
  by (simp add: fwd_def fwd_checks_first_violation)

lemma invalid_first_violation:
  "\<not> section3_invariants input cos sin \<Longrightarrow> \<exists>v. first_violation input cos sin = Some v"
  using first_violation_None [of input cos sin] by (cases "first_violation input cos sin") auto

lemma delegated_spy:
  "delegated (spy k) a cos sin t (log, w) =
     (Inr (fst (k a cos sin t w)), (log @ [(a, cos, sin, t)], snd (k a cos sin t w)))"
  by (simp add: delegated_def spy_def split: prod.split)

lemma section3_scenario1:
  "section3_invariants (tensor [8, 2, 4, 64] Float) (tensor [8, 1, 1, 32] Float)
     (tensor [8, 1, 1, 32] Float)"
  by (simp add: section3_invariants_def ranks_are_4_def rank_def tensor_def dtype_def
      size0_def size1_def size2_def size3_def)

subsection \<open>Delegation\<close>

text \<open>
  C1. When the arguments satisfy every invariant of section 3, \<open>fwd\<close> changes nothing: its
  result and the world after it are those of the one kernel call
  \<open>fwd_cuda input cos sin transpose_output\<close>, and a kernel that records its calls has
  recorded exactly this one call, with the four arguments as they were given.
\<close>

theorem fwd_delegates_unmodified:
  assumes "section3_invariants input cos sin"
  shows "fwd fwd_cuda input cos sin transpose_output w =
           (Inr (fst (fwd_cuda input cos sin transpose_output w)),
            snd (fwd_cuda input cos sin transpose_output w))
       \<and> fwd (spy fwd_cuda) input cos sin transpose_output (log, w) =
           (Inr (fst (fwd_cuda input cos sin transpose_output w)),
            (log @ [(input, cos, sin, transpose_output)],
             snd (fwd_cuda input cos sin transpose_output w)))"
proof
  show "fwd fwd_cuda input cos sin transpose_output w =
          (Inr (fst (fwd_cuda input cos sin transpose_output w)),
           snd (fwd_cuda input cos sin transpose_output w))"
    using fwd_valid [OF assms] by (simp add: delegated_def)
next
  show "fwd (spy fwd_cuda) input cos sin transpose_output (log, w) =
          (Inr (fst (fwd_cuda input cos sin transpose_output w)),
           (log @ [(input, cos, sin, transpose_output)],
            snd (fwd_cuda input cos sin transpose_output w)))"
    using fwd_valid [OF assms, of "spy fwd_cuda"] by (simp add: delegated_spy)
qed

text \<open>
  The first scenario of the specification: Input of shape (8, 2, 4, 64), Cos and Sin of
  shape (8, 1, 1, 32), one element type.
\<close>

theorem fwd_delegates_unmodified_witness:
  "section3_invariants (tensor [8, 2, 4, 64] Float) (tensor [8, 1, 1, 32] Float)
     (tensor [8, 1, 1, 32] Float)
   \<and> fwd test_kernel (tensor [8, 2, 4, 64] Float) (tensor [8, 1, 1, 32] Float)
       (tensor [8, 1, 1, 32] Float) True 0 =
       (Inr \<lparr>sizes = [8, 2, 4, 64], scalar_type = Float, storage = [3, 2, 1]\<rparr>, 1)
   \<and> fwd (spy test_kernel) (tensor [8, 2, 4, 64] Float) (tensor [8, 1, 1, 32] Float)
       (tensor [8, 1, 1, 32] Float) True ([], 0) =
       (Inr \<lparr>sizes = [8, 2, 4, 64], scalar_type = Float, storage = [3, 2, 1]\<rparr>,
        ([(tensor [8, 2, 4, 64] Float, tensor [8, 1, 1, 32] Float,
           tensor [8, 1, 1, 32] Float, True)], 1))"
  using fwd_delegates_unmodified [OF section3_scenario1, of test_kernel True 0 "[]"]
    section3_scenario1
  by (simp add: test_kernel_def tensor_def)

subsection \<open>Rejection\<close>

lemma section3_scenario2:
  "\<not> section3_invariants (tensor [8, 2, 4, 64] Float) (tensor [8, 1, 1, 32] Float)
     (tensor [8, 1, 1, 16] Float)"
  by (simp add: section3_invariants_def ranks_are_4_def rank_def tensor_def dtype_def
      size0_def size1_def size2_def size3_def)

text \<open>
  C2. \<open>fwd\<close> raises, and then always the error of a failed \<^verbatim>\<open>TORCH_CHECK\<close>
  (InvalidArgument), exactly when an invariant of section 3 is violated; and when one is
  violated the kernel is not called: the world is left as it was, and a kernel that
  records its calls has recorded none.
\<close>

theorem fwd_raises_iff_invariant_violated:
  "((\<exists>msg. fst (fwd fwd_cuda input cos sin transpose_output w) = Inl (Error msg))
      \<longleftrightarrow> \<not> section3_invariants input cos sin)
   \<and> ((\<exists>e. fst (fwd fwd_cuda input cos sin transpose_output w) = Inl e)
      \<longleftrightarrow> \<not> section3_invariants input cos sin)
   \<and> (\<not> section3_invariants input cos sin \<longrightarrow>
        snd (fwd fwd_cuda input cos sin transpose_output w) = w
        \<and> snd (fwd (spy fwd_cuda) input cos sin transpose_output (log, w)) = (log, w))"
proof (cases "section3_invariants input cos sin")
  case True
  then show ?thesis by (simp add: fwd_valid delegated_def)
next
  case False
  then obtain v where "first_violation input cos sin = Some v"
    using invalid_first_violation by blast
  with False show ?thesis by (simp add: fwd_invalid)
qed

text \<open>
  The second scenario of the specification: Cos of shape (8, 1, 1, 32) and Sin of shape
  (8, 1, 1, 16).
\<close>

theorem fwd_raises_iff_invariant_violated_witness:
  "\<not> section3_invariants (tensor [8, 2, 4, 64] Float) (tensor [8, 1, 1, 32] Float)
       (tensor [8, 1, 1, 16] Float)
   \<and> fwd (spy test_kernel) (tensor [8, 2, 4, 64] Float) (tensor [8, 1, 1, 32] Float)
       (tensor [8, 1, 1, 16] Float) False ([], 0) =
       (Inl (Error ''expected cos and sin tensor have the same last dim''), ([], 0))"
proof -
  have "snd (fwd (spy test_kernel) (tensor [8, 2, 4, 64] Float) (tensor [8, 1, 1, 32] Float)
       (tensor [8, 1, 1, 16] Float) False ([], 0)) = ([], 0)"
    using fwd_raises_iff_invariant_violated
      [of test_kernel "tensor [8, 2, 4, 64] Float" "tensor [8, 1, 1, 32] Float"
        "tensor [8, 1, 1, 16] Float" False 0 "[]"]
      section3_scenario2
    by simp
  moreover have "fst (fwd (spy test_kernel) (tensor [8, 2, 4, 64] Float)
       (tensor [8, 1, 1, 32] Float) (tensor [8, 1, 1, 16] Float) False ([], 0)) =
       Inl (Error ''expected cos and sin tensor have the same last dim'')"
    by (simp add: fwd_def fwd_checks_chain rank_def tensor_def dtype_def
        size0_def size1_def size2_def size3_def)
  ultimately show ?thesis
    using section3_scenario2 by (simp add: prod_eq_iff)
qed

lemma section3_split:
  "section3_invariants input cos sin \<longleftrightarrow>
     invariants_but_width input cos sin \<and> \<not> size3 input < size3 cos"
  by (auto simp: section3_invariants_def invariants_but_width_def)

lemma width_first_violation:
  "invariants_but_width input cos sin \<Longrightarrow> size3 input < size3 cos \<Longrightarrow>
     first_violation input cos sin = Some WidthOrder"
  by (simp add: first_violation_chain invariants_but_width_def ranks_are_4_def)

text \<open>
  C3. When every other invariant of section 3 holds, \<open>fwd\<close> raises exactly when dimension 3
  of Input is strictly less than dimension 3 of Cos, with the message of the width check;
  when the two are equal the call goes through to the kernel.
\<close>

theorem fwd_width_check_strict:
  assumes "invariants_but_width input cos sin"
  shows "((\<exists>e. fst (fwd fwd_cuda input cos sin transpose_output w) = Inl e)
            \<longleftrightarrow> size3 input < size3 cos)
       \<and> (size3 input < size3 cos \<longrightarrow>
            fwd fwd_cuda input cos sin transpose_output w =
              (Inl (Error ''expected the last dim of the input tensor equals or is greater than the cos tensor''), w))
       \<and> (size3 input = size3 cos \<longrightarrow>
            fwd fwd_cuda input cos sin transpose_output w =
              delegated fwd_cuda input cos sin transpose_output w)"
proof (cases "size3 input < size3 cos")
  case True
  from width_first_violation [OF assms True] True show ?thesis
    by (simp add: fwd_invalid)
next
  case False
  with assms have "section3_invariants input cos sin"
    by (simp add: section3_split)
  with False show ?thesis
    by (simp add: fwd_valid delegated_def)
qed

lemma but_width_equal_widths:
  "invariants_but_width (tensor [8, 2, 4, 32] Float) (tensor [8, 1, 1, 32] Float)
     (tensor [8, 1, 1, 32] Float)"
  by (simp add: invariants_but_width_def ranks_are_4_def rank_def tensor_def dtype_def
      size0_def size1_def size2_def size3_def)

lemma but_width_scenario3:
  "invariants_but_width (tensor [8, 2, 4, 16] Float) (tensor [8, 1, 1, 32] Float)
     (tensor [8, 1, 1, 32] Float)"
  by (simp add: invariants_but_width_def ranks_are_4_def rank_def tensor_def dtype_def
      size0_def size1_def size2_def size3_def)

text \<open>
  Equal widths (32 and 32) go through; the third scenario of the specification, widths
  16 and 32, is rejected.
\<close>

theorem fwd_width_check_strict_witness:
  "invariants_but_width (tensor [8, 2, 4, 32] Float) (tensor [8, 1, 1, 32] Float)
     (tensor [8, 1, 1, 32] Float)
   \<and> fwd test_kernel (tensor [8, 2, 4, 32] Float) (tensor [8, 1, 1, 32] Float)
       (tensor [8, 1, 1, 32] Float) False 0 =
       (Inr (tensor [8, 2, 4, 32] Float), 1)
   \<and> invariants_but_width (tensor [8, 2, 4, 16] Float) (tensor [8, 1, 1, 32] Float)
       (tensor [8, 1, 1, 32] Float)
   \<and> fwd test_kernel (tensor [8, 2, 4, 16] Float) (tensor [8, 1, 1, 32] Float)
       (tensor [8, 1, 1, 32] Float) False 0 =
       (Inl (Error ''expected the last dim of the input tensor equals or is greater than the cos tensor''), 0)"
proof -
  have "size3 (tensor [8, 2, 4, 32] Float) = size3 (tensor [8, 1, 1, 32] Float)"
    by (simp add: size3_def tensor_def)
  then have "fwd test_kernel (tensor [8, 2, 4, 32] Float) (tensor [8, 1, 1, 32] Float)
       (tensor [8, 1, 1, 32] Float) False 0 = (Inr (tensor [8, 2, 4, 32] Float), 1)"
    using fwd_width_check_strict [OF but_width_equal_widths, of test_kernel False 0]
    by (simp add: delegated_def test_kernel_def tensor_def)
  moreover have "size3 (tensor [8, 2, 4, 16] Float) < size3 (tensor [8, 1, 1, 32] Float)"
    by (simp add: size3_def tensor_def)
  then have "fwd test_kernel (tensor [8, 2, 4, 16] Float) (tensor [8, 1, 1, 32] Float)
       (tensor [8, 1, 1, 32] Float) False 0 =
       (Inl (Error ''expected the last dim of the input tensor equals or is greater than the cos tensor''), 0)"
    using fwd_width_check_strict [OF but_width_scenario3, of test_kernel False 0]
    by simp
  ultimately show ?thesis
    using but_width_equal_widths but_width_scenario3 by simp
qed

subsection \<open>Backward\<close>

lemma bwd_checks_first_violation:
  "bwd_checks output_grads cos sin =
     (case first_violation output_grads cos sin of
        Some v \<Rightarrow> Inl (Error (bwd_message v))
      | None \<Rightarrow> Inr ())"
  unfolding bwd_checks_chain first_violation_chain by simp

lemma bwd_valid:
  "first_violation output_grads cos sin = None \<Longrightarrow>
     bwd k output_grads cos sin t w = delegated k output_grads cos sin t w"
  by (simp add: bwd_def delegated_def bwd_checks_first_violation split: prod.split)

lemma bwd_invalid:
  "first_violation output_grads cos sin = Some v \<Longrightarrow>
     bwd k output_grads cos sin t w = (Inl (Error (bwd_message v)), w)"
  by (simp add: bwd_def bwd_checks_first_violation)

lemma replace_fwd_message:
  "replace ''input'' ''output_grads'' (fwd_message v) = bwd_message v"
  by (cases v) (simp_all add: replace_def)

text \<open>
  C4. \<open>bwd\<close> is \<open>fwd\<close> with OutputGrads in the place of Input. With one kernel \<open>k\<close> standing
  for \<^verbatim>\<open>bwd_cuda\<close> in \<open>bwd\<close> and for \<^verbatim>\<open>fwd_cuda\<close> in \<open>fwd\<close>: \<open>bwd\<close> rejects exactly the
  arguments that \<open>fwd\<close> rejects, at the same check, with an error of the same kind whose
  message is that of \<open>fwd\<close> with \<open>input\<close> replaced by \<open>output_grads\<close>; and it accepts the
  others, calls the kernel once on the four arguments as given and returns its result.
\<close>

theorem bwd_mirrors_fwd:
  "bwd k output_grads cos sin transpose_output w =
     (case fwd k output_grads cos sin transpose_output w of
        (Inl e, w') \<Rightarrow> (Inl (rename_input e), w')
      | (Inr r, w') \<Rightarrow> (Inr r, w'))
   \<and> map_option kind_of (validation_outcome (bwd k output_grads cos sin transpose_output w)) =
     map_option kind_of (validation_outcome (fwd k output_grads cos sin transpose_output w))
   \<and> (validation_outcome (bwd k output_grads cos sin transpose_output w) = None \<longrightarrow>
        bwd (spy k) output_grads cos sin transpose_output (log, w) =
          (Inr (fst (k output_grads cos sin transpose_output w)),
           (log @ [(output_grads, cos, sin, transpose_output)],
            snd (k output_grads cos sin transpose_output w))))"
proof (cases "first_violation output_grads cos sin")
  case None
  then have "section3_invariants output_grads cos sin"
    by (simp add: first_violation_None)
  with None show ?thesis
    by (simp add: bwd_valid fwd_valid delegated_spy)
      (simp add: delegated_def validation_outcome_def)
next
  case (Some v)
  then show ?thesis
    by (simp add: bwd_invalid fwd_invalid replace_fwd_message validation_outcome_def)
qed

theorem bwd_mirrors_fwd_witness:
  "bwd test_kernel (tensor [8, 2, 4, 16] Float) (tensor [8, 1, 1, 32] Float)
       (tensor [8, 1, 1, 32] Float) False 0 =
     (Inl (Error ''expected the last dim of the output_grads tensor equals or is greater than the cos tensor''), 0)
   \<and> bwd (spy test_kernel) (tensor [8, 2, 4, 64] Float) (tensor [8, 1, 1, 32] Float)
       (tensor [8, 1, 1, 32] Float) True ([], 0) =
     (Inr \<lparr>sizes = [8, 2, 4, 64], scalar_type = Float, storage = [3, 2, 1]\<rparr>,
      ([(tensor [8, 2, 4, 64] Float, tensor [8, 1, 1, 32] Float,
         tensor [8, 1, 1, 32] Float, True)], 1))"
proof -
  have "size3 (tensor [8, 2, 4, 16] Float) < size3 (tensor [8, 1, 1, 32] Float)"
    by (simp add: size3_def tensor_def)
  then have "first_violation (tensor [8, 2, 4, 16] Float) (tensor [8, 1, 1, 32] Float)
      (tensor [8, 1, 1, 32] Float) = Some WidthOrder"
    by (rule width_first_violation [OF but_width_scenario3])
  then have "bwd test_kernel (tensor [8, 2, 4, 16] Float) (tensor [8, 1, 1, 32] Float)
       (tensor [8, 1, 1, 32] Float) False 0 =
     (Inl (Error ''expected the last dim of the output_grads tensor equals or is greater than the cos tensor''), 0)"
    using bwd_mirrors_fwd [of test_kernel "tensor [8, 2, 4, 16] Float"
        "tensor [8, 1, 1, 32] Float" "tensor [8, 1, 1, 32] Float" False 0]
    by (simp add: fwd_invalid replace_def)
  moreover have "validation_outcome (bwd test_kernel (tensor [8, 2, 4, 64] Float)
      (tensor [8, 1, 1, 32] Float) (tensor [8, 1, 1, 32] Float) True 0) = None"
    using section3_scenario1
    by (simp add: first_violation_None [symmetric] bwd_valid delegated_def
        validation_outcome_def)
  then have "bwd (spy test_kernel) (tensor [8, 2, 4, 64] Float) (tensor [8, 1, 1, 32] Float)
       (tensor [8, 1, 1, 32] Float) True ([], 0) =
     (Inr \<lparr>sizes = [8, 2, 4, 64], scalar_type = Float, storage = [3, 2, 1]\<rparr>,
      ([(tensor [8, 2, 4, 64] Float, tensor [8, 1, 1, 32] Float,
         tensor [8, 1, 1, 32] Float, True)], 1))"
    using bwd_mirrors_fwd [of test_kernel "tensor [8, 2, 4, 64] Float"
        "tensor [8, 1, 1, 32] Float" "tensor [8, 1, 1, 32] Float" True 0 "[]"]
    by (simp add: test_kernel_def tensor_def)
  ultimately show ?thesis by simp
qed

subsection \<open>Messages\<close>

lemma validation_outcome_fwd:
  "validation_outcome (fwd k input cos sin t w) =
     map_option (\<lambda>v. Error (fwd_message v)) (first_violation input cos sin)"
  by (simp add: validation_outcome_def fwd_def fwd_checks_first_violation
      split: option.split prod.split)

lemma validation_outcome_bwd:
  "validation_outcome (bwd k output_grads cos sin t w) =
     map_option (\<lambda>v. Error (bwd_message v)) (first_violation output_grads cos sin)"
  by (simp add: validation_outcome_def bwd_def bwd_checks_first_violation
      split: option.split prod.split)

lemma fwd_message_eq_iff:
  "fwd_message v = fwd_message v' \<longleftrightarrow> v = v' \<or> (is_rank_check v \<and> is_rank_check v')"
  by (cases v; cases v'; simp add: is_rank_check_def)

lemma first_violation_rank3_input:
  "first_violation (tensor [8, 4, 64] Float) (tensor [8, 1, 1, 32] Float)
     (tensor [8, 1, 1, 32] Float) = Some RankInput"
  by (simp add: first_violation_chain rank_def tensor_def)

lemma first_violation_rank3_cos:
  "first_violation (tensor [8, 2, 4, 64] Float) (tensor [8, 1, 32] Float)
     (tensor [8, 1, 1, 32] Float) = Some RankCos"
  by (simp add: first_violation_chain rank_def tensor_def)

lemma first_violation_rank3_sin:
  "first_violation (tensor [8, 2, 4, 64] Float) (tensor [8, 1, 1, 32] Float)
     (tensor [8, 1, 32] Float) = Some RankSin"
  by (simp add: first_violation_chain rank_def tensor_def)

lemma first_violation_seq_len:
  "first_violation (tensor [7, 2, 4, 64] Float) (tensor [8, 1, 1, 32] Float)
     (tensor [8, 1, 1, 32] Float) = Some SeqLenCos"
  by (simp add: first_violation_chain rank_def tensor_def size0_def)

lemma first_violation_scenario4:
  "first_violation (tensor [8, 2, 4, 64] Float) (tensor [8, 1, 1, 32] Float)
     (tensor [8, 1, 1, 32] Half) = Some DtypeEqual"
  by (simp add: first_violation_chain rank_def tensor_def dtype_def
      size0_def size1_def size2_def size3_def)

text \<open>
  C5, as stated, fails: a call whose Input has three dimensions, one whose Cos has three
  and one whose Sin has three violate three different invariants, and \<open>fwd\<close> raises the one
  message \<^verbatim>\<open>expected 4D tensor\<close> for all of them.
\<close>

theorem rank_messages_coincide_counterexample:
  "first_violation (tensor [8, 4, 64] Float) (tensor [8, 1, 1, 32] Float)
       (tensor [8, 1, 1, 32] Float) = Some RankInput
   \<and> first_violation (tensor [8, 2, 4, 64] Float) (tensor [8, 1, 32] Float)
       (tensor [8, 1, 1, 32] Float) = Some RankCos
   \<and> first_violation (tensor [8, 2, 4, 64] Float) (tensor [8, 1, 1, 32] Float)
       (tensor [8, 1, 32] Float) = Some RankSin
   \<and> fwd test_kernel (tensor [8, 4, 64] Float) (tensor [8, 1, 1, 32] Float)
       (tensor [8, 1, 1, 32] Float) False 0 = (Inl (Error ''expected 4D tensor''), 0)
   \<and> fwd test_kernel (tensor [8, 2, 4, 64] Float) (tensor [8, 1, 32] Float)
       (tensor [8, 1, 1, 32] Float) False 0 = (Inl (Error ''expected 4D tensor''), 0)
   \<and> fwd test_kernel (tensor [8, 2, 4, 64] Float) (tensor [8, 1, 1, 32] Float)
       (tensor [8, 1, 32] Float) False 0 = (Inl (Error ''expected 4D tensor''), 0)"
  by (simp add: first_violation_rank3_input first_violation_rank3_cos
      first_violation_rank3_sin fwd_invalid)

text \<open>
  C5, amended. When two calls of \<open>fwd\<close> fail, each raises the message of its first failing
  check, and the two messages are equal exactly when the two checks are the same or are
  both rank checks: every check but the three rank checks has a message of its own, and
  the three rank checks share one message, which no other check has.
\<close>

theorem fwd_messages_distinct_up_to_rank:
  assumes "first_violation input cos sin = Some v"
    and "first_violation input' cos' sin' = Some v'"
  shows "validation_outcome (fwd k input cos sin t w) = Some (Error (fwd_message v))
       \<and> validation_outcome (fwd k' input' cos' sin' t' w') = Some (Error (fwd_message v'))
       \<and> (validation_outcome (fwd k input cos sin t w) =
            validation_outcome (fwd k' input' cos' sin' t' w')
          \<longleftrightarrow> v = v' \<or> (is_rank_check v \<and> is_rank_check v'))"
  using assms by (simp add: validation_outcome_fwd fwd_message_eq_iff)

text \<open>
  A mismatch of the sequence lengths against the fourth scenario of the specification
  (Cos of 32-bit floats, Sin of 16-bit floats): two messages.
\<close>

theorem fwd_messages_distinct_up_to_rank_witness:
  "first_violation (tensor [7, 2, 4, 64] Float) (tensor [8, 1, 1, 32] Float)
       (tensor [8, 1, 1, 32] Float) = Some SeqLenCos
   \<and> first_violation (tensor [8, 2, 4, 64] Float) (tensor [8, 1, 1, 32] Float)
       (tensor [8, 1, 1, 32] Half) = Some DtypeEqual
   \<and> validation_outcome (fwd test_kernel (tensor [7, 2, 4, 64] Float)
       (tensor [8, 1, 1, 32] Float) (tensor [8, 1, 1, 32] Float) False 0) =
       Some (Error ''expected input and cos tensor have the same sequence length'')
   \<and> validation_outcome (fwd test_kernel (tensor [8, 2, 4, 64] Float)
       (tensor [8, 1, 1, 32] Float) (tensor [8, 1, 1, 32] Half) False 0) =
       Some (Error ''expected cos and sin tensor have the same dtype'')
   \<and> validation_outcome (fwd test_kernel (tensor [7, 2, 4, 64] Float)
       (tensor [8, 1, 1, 32] Float) (tensor [8, 1, 1, 32] Float) False 0) \<noteq>
     validation_outcome (fwd test_kernel (tensor [8, 2, 4, 64] Float)
       (tensor [8, 1, 1, 32] Float) (tensor [8, 1, 1, 32] Half) False 0)"
  using fwd_messages_distinct_up_to_rank
    [OF first_violation_seq_len first_violation_scenario4, of test_kernel False 0 test_kernel False 0]
    first_violation_seq_len first_violation_scenario4
  by (simp add: is_rank_check_def)

subsection \<open>The order of the checks\<close>

lemma find_None_same_set:
  "set xs = set ys \<Longrightarrow> (find P xs = None) = (find P ys = None)"
  by (simp add: find_None_iff)

text \<open>
  C7. When \<open>fwd\<close> is called with several invariants violated, it raises the message of the
  first check, in the order of the specification, that fails, and the world is as it was.
  The order does not bear on success: going through the same checks in any other order
  finds no violation exactly when \<open>fwd\<close> calls the kernel, which is exactly when the
  invariants of section 3 hold.
\<close>

theorem fwd_reports_first_violation:
  "(first_violation input cos sin = Some v \<longrightarrow>
      fwd k input cos sin t w = (Inl (Error (fwd_message v)), w))
   \<and> (first_violation input cos sin = None \<longleftrightarrow> section3_invariants input cos sin)
   \<and> (set order = set validation_order \<longrightarrow>
        (find (\<lambda>u. violated u input cos sin) order = None
           \<longleftrightarrow> validation_outcome (fwd k input cos sin t w) = None)
        \<and> (find (\<lambda>u. violated u input cos sin) order = None
           \<longleftrightarrow> fwd k input cos sin t w = delegated k input cos sin t w))"
proof (intro conjI impI)
  assume "first_violation input cos sin = Some v"
  then show "fwd k input cos sin t w = (Inl (Error (fwd_message v)), w)"
    by (rule fwd_invalid)
next
  show "first_violation input cos sin = None \<longleftrightarrow> section3_invariants input cos sin"
    by (rule first_violation_None)
next
  assume order: "set order = set validation_order"
  then have *: "find (\<lambda>u. violated u input cos sin) order = None
      \<longleftrightarrow> first_violation input cos sin = None"
    unfolding first_violation_def by (rule find_None_same_set)
  show "find (\<lambda>u. violated u input cos sin) order = None
      \<longleftrightarrow> validation_outcome (fwd k input cos sin t w) = None"
    by (simp add: * validation_outcome_fwd)
  show "find (\<lambda>u. violated u input cos sin) order = None
      \<longleftrightarrow> fwd k input cos sin t w = delegated k input cos sin t w"
  proof (cases "first_violation input cos sin")
    case None
    then show ?thesis
      by (simp add: * fwd_valid first_violation_None)
  next
    case (Some u)
    then show ?thesis
      by (simp add: * fwd_invalid delegated_def)
  qed
qed

lemma first_violation_many:
  "first_violation (tensor [7, 2, 4, 16] Float) (tensor [8, 2, 1, 32] Float)
     (tensor [8, 1, 1, 16] Half) = Some SeqLenCos"
  by (simp add: first_violation_chain rank_def tensor_def size0_def)

lemma set_rev_validation_order:
  "set (rev validation_order) = set validation_order"
  by simp

text \<open>
  A call that violates six invariants at once (both sequence lengths, the broadcast
  dimensions of Cos, the last dimensions, the widths, the element types) raises the
  message of the sequence length against Cos; and the checks taken in the reverse order
  find nothing in the first scenario of the specification, which goes through.
\<close>

theorem fwd_reports_first_violation_witness:
  "first_violation (tensor [7, 2, 4, 16] Float) (tensor [8, 2, 1, 32] Float)
       (tensor [8, 1, 1, 16] Half) = Some SeqLenCos
   \<and> fwd test_kernel (tensor [7, 2, 4, 16] Float) (tensor [8, 2, 1, 32] Float)
       (tensor [8, 1, 1, 16] Half) False 0 =
       (Inl (Error ''expected input and cos tensor have the same sequence length''), 0)
   \<and> set (rev validation_order) = set validation_order
   \<and> find (\<lambda>u. violated u (tensor [8, 2, 4, 64] Float) (tensor [8, 1, 1, 32] Float)
       (tensor [8, 1, 1, 32] Float)) (rev validation_order) = None
   \<and> fwd test_kernel (tensor [8, 2, 4, 64] Float) (tensor [8, 1, 1, 32] Float)
       (tensor [8, 1, 1, 32] Float) False 0 = (Inr (tensor [8, 2, 4, 64] Float), 1)"
proof -
  have "fwd test_kernel (tensor [7, 2, 4, 16] Float) (tensor [8, 2, 1, 32] Float)
       (tensor [8, 1, 1, 16] Half) False 0 =
       (Inl (Error ''expected input and cos tensor have the same sequence length''), 0)"
    using fwd_reports_first_violation
      [of "tensor [7, 2, 4, 16] Float" "tensor [8, 2, 1, 32] Float" "tensor [8, 1, 1, 16] Half"
        SeqLenCos test_kernel False 0 "rev validation_order"]
      first_violation_many
    by simp
  moreover have "find (\<lambda>u. violated u (tensor [8, 2, 4, 64] Float)
       (tensor [8, 1, 1, 32] Float) (tensor [8, 1, 1, 32] Float)) (rev validation_order) = None"
    using fwd_reports_first_violation
      [of "tensor [8, 2, 4, 64] Float" "tensor [8, 1, 1, 32] Float" "tensor [8, 1, 1, 32] Float"
        SeqLenCos test_kernel False 0 "rev validation_order"]
      fwd_valid [OF section3_scenario1, of test_kernel False 0] set_rev_validation_order
    by blast
  moreover have "fwd test_kernel (tensor [8, 2, 4, 64] Float) (tensor [8, 1, 1, 32] Float)
       (tensor [8, 1, 1, 32] Float) False 0 = (Inr (tensor [8, 2, 4, 64] Float), 1)"
    using fwd_valid [OF section3_scenario1, of test_kernel False 0]
    by (simp add: delegated_def test_kernel_def tensor_def)
  ultimately show ?thesis
    using first_violation_many set_rev_validation_order by simp
qed

subsection \<open>What the validation reads\<close>

lemma first_violation_metadata:
  assumes "sizes input' = sizes input" "sizes cos' = sizes cos" "sizes sin' = sizes sin"
    and "scalar_type cos' = scalar_type sin' \<longleftrightarrow> scalar_type cos = scalar_type sin"
  shows "first_violation input' cos' sin' = first_violation input cos sin"
proof -
  have "rank input' = rank input" "rank cos' = rank cos" "rank sin' = rank sin"
    and "size0 input' = size0 input" "size0 cos' = size0 cos" "size0 sin' = size0 sin"
    and "size1 cos' = size1 cos" "size1 sin' = size1 sin"
    and "size2 cos' = size2 cos" "size2 sin' = size2 sin"
    and "size3 input' = size3 input" "size3 cos' = size3 cos" "size3 sin' = size3 sin"
    by (simp_all only: rank_def size0_def size1_def size2_def size3_def assms(1-3))
  moreover have "dtype cos' \<noteq> dtype sin' \<longleftrightarrow> dtype cos \<noteq> dtype sin"
    by (simp only: dtype_def assms(4))
  ultimately show ?thesis
    by (simp only: first_violation_chain)
qed

text \<open>
  C6. The outcome of the validation of \<open>fwd\<close> (passed, or the error raised) is a function of
  the sizes and the element types of Input, Cos and Sin alone: two calls whose tensors
  agree in these have the same outcome, whatever the contents of the tensors, the flags,
  the kernels and the worlds are. The validation has no effect: a call that fails leaves
  the world as it was, a call that passes leaves the world that the kernel alone leaves.
  It always has an outcome, and the outcome is never an index error.
\<close>

theorem fwd_validation_reads_metadata_only:
  assumes "sizes input' = sizes input" and "scalar_type input' = scalar_type input"
    and "sizes cos' = sizes cos" and "scalar_type cos' = scalar_type cos"
    and "sizes sin' = sizes sin" and "scalar_type sin' = scalar_type sin"
  shows "validation_outcome (fwd k' input' cos' sin' t' w') =
           validation_outcome (fwd k input cos sin t w)
       \<and> snd (fwd k input cos sin t w) =
           (if validation_outcome (fwd k input cos sin t w) = None
            then snd (k input cos sin t w) else w)
       \<and> validation_outcome (fwd k input cos sin t w) \<noteq> Some IndexError"
proof (intro conjI)
  have "first_violation input' cos' sin' = first_violation input cos sin"
    by (rule first_violation_metadata) (simp_all only: assms)
  then show "validation_outcome (fwd k' input' cos' sin' t' w') =
      validation_outcome (fwd k input cos sin t w)"
    by (simp add: validation_outcome_fwd)
next
  show "snd (fwd k input cos sin t w) =
      (if validation_outcome (fwd k input cos sin t w) = None
       then snd (k input cos sin t w) else w)"
  proof (cases "first_violation input cos sin")
    case None
    then show ?thesis
      by (simp add: fwd_valid first_violation_None delegated_def validation_outcome_def)
  next
    case (Some v)
    then show ?thesis
      by (simp add: fwd_invalid validation_outcome_def)
  qed
next
  show "validation_outcome (fwd k input cos sin t w) \<noteq> Some IndexError"
    by (simp add: validation_outcome_fwd)
qed

text \<open>
  Two calls on tensors of the same shapes and element types and of different contents,
  with different flags: the second scenario of the specification, rejected both times
  with one message.
\<close>

theorem fwd_validation_reads_metadata_only_witness:
  "validation_outcome (fwd test_kernel
       \<lparr>sizes = [8, 2, 4, 64], scalar_type = Float, storage = [4, 5]\<rparr>
       \<lparr>sizes = [8, 1, 1, 32], scalar_type = Float, storage = []\<rparr>
       \<lparr>sizes = [8, 1, 1, 16], scalar_type = Float, storage = [6]\<rparr> True 7) =
     Some (Error ''expected cos and sin tensor have the same last dim'')
   \<and> validation_outcome (fwd test_kernel (tensor [8, 2, 4, 64] Float)
       (tensor [8, 1, 1, 32] Float) (tensor [8, 1, 1, 16] Float) False 0) =
     Some (Error ''expected cos and sin tensor have the same last dim'')
   \<and> snd (fwd test_kernel (tensor [8, 2, 4, 64] Float)
       (tensor [8, 1, 1, 32] Float) (tensor [8, 1, 1, 16] Float) False 0) = 0"
proof -
  have *: "validation_outcome (fwd test_kernel (tensor [8, 2, 4, 64] Float)
       (tensor [8, 1, 1, 32] Float) (tensor [8, 1, 1, 16] Float) False 0) =
     Some (Error ''expected cos and sin tensor have the same last dim'')"
    by (simp add: validation_outcome_fwd first_violation_chain rank_def tensor_def
        size0_def size1_def size2_def size3_def)
  have "sizes \<lparr>sizes = [8, 2, 4, 64], scalar_type = Float, storage = [4, 5::nat]\<rparr> =
      sizes (tensor [8, 2, 4, 64] Float)"
    and "scalar_type \<lparr>sizes = [8, 2, 4, 64], scalar_type = Float, storage = [4, 5::nat]\<rparr> =
      scalar_type (tensor [8, 2, 4, 64] Float)"
    and "sizes \<lparr>sizes = [8, 1, 1, 32], scalar_type = Float, storage = []::nat list\<rparr> =
      sizes (tensor [8, 1, 1, 32] Float)"
    and "scalar_type \<lparr>sizes = [8, 1, 1, 32], scalar_type = Float, storage = []::nat list\<rparr> =
      scalar_type (tensor [8, 1, 1, 32] Float)"
    and "sizes \<lparr>sizes = [8, 1, 1, 16], scalar_type = Float, storage = [6::nat]\<rparr> =
      sizes (tensor [8, 1, 1, 16] Float)"
    and "scalar_type \<lparr>sizes = [8, 1, 1, 16], scalar_type = Float, storage = [6::nat]\<rparr> =
      scalar_type (tensor [8, 1, 1, 16] Float)"
    by (simp_all add: tensor_def)
  from fwd_validation_reads_metadata_only [OF this, of test_kernel True 7 test_kernel False 0] *
  show ?thesis by simp
qed

subsection \<open>Dimension accesses\<close>

lemma size_dim_in_range:
  "rank x = 4 \<Longrightarrow> d \<in> {0, 1, 2, 3} \<Longrightarrow> size_dim x d \<noteq> Inl IndexError"
  by (auto simp: size_dim_rank4)

lemma rank_first_violation:
  "\<not> ranks_are_4 a cos sin \<Longrightarrow>
     first_violation a cos sin \<in> {Some RankInput, Some RankCos, Some RankSin}"
  by (auto simp: first_violation_chain ranks_are_4_def)

text \<open>
  C8. Neither \<open>fwd\<close> nor \<open>bwd\<close> reads a dimension out of range: for every argument tuple
  neither raises the index error of \<^verbatim>\<open>Tensor::size\<close>. When one of the three tensors does not
  have four dimensions, a rank check raises \<^verbatim>\<open>expected 4D tensor\<close> before any size is
  read; when all three have four dimensions, every \<open>size(0)\<close> to \<open>size(3)\<close> is in range.
\<close>

theorem no_out_of_range_dimension_access:
  "fst (fwd k a cos sin t w) \<noteq> Inl IndexError
   \<and> fst (bwd k a cos sin t w) \<noteq> Inl IndexError
   \<and> (\<not> ranks_are_4 a cos sin \<longrightarrow>
        fwd k a cos sin t w = (Inl (Error ''expected 4D tensor''), w)
        \<and> bwd k a cos sin t w = (Inl (Error ''expected 4D tensor''), w))
   \<and> (ranks_are_4 a cos sin \<longrightarrow>
        (\<forall>x \<in> {a, cos, sin}. \<forall>d \<in> {0, 1, 2, 3}. size_dim x d \<noteq> Inl IndexError))"
proof (intro conjI impI)
  show "fst (fwd k a cos sin t w) \<noteq> Inl IndexError"
    by (cases "first_violation a cos sin")
      (simp_all add: fwd_invalid fwd_valid first_violation_None delegated_def)
  show "fst (bwd k a cos sin t w) \<noteq> Inl IndexError"
    by (cases "first_violation a cos sin")
      (simp_all add: bwd_invalid bwd_valid delegated_def)
next
  assume "\<not> ranks_are_4 a cos sin"
  then have v: "first_violation a cos sin \<in> {Some RankInput, Some RankCos, Some RankSin}"
    by (rule rank_first_violation)
  then show "fwd k a cos sin t w = (Inl (Error ''expected 4D tensor''), w)"
    by (auto simp: fwd_invalid)
  from v show "bwd k a cos sin t w = (Inl (Error ''expected 4D tensor''), w)"
    by (auto simp: bwd_invalid)
next
  assume "ranks_are_4 a cos sin"
  then have "rank a = 4" "rank cos = 4" "rank sin = 4"
    by (simp_all add: ranks_are_4_def)
  then show "\<forall>x \<in> {a, cos, sin}. \<forall>d \<in> {0, 1, 2, 3}. size_dim x d \<noteq> Inl IndexError"
    using size_dim_in_range by blast
qed

text \<open>
  An Input of three dimensions: \<open>size(3)\<close> of it would raise the index error, and \<open>fwd\<close> and
  \<open>bwd\<close> raise the error of the rank check instead. On the first scenario of the
  specification, \<open>size(3)\<close> of Input is in range.
\<close>

theorem no_out_of_range_dimension_access_witness:
  "size_dim (tensor [8, 4, 64] Float) 3 = Inl IndexError
   \<and> \<not> ranks_are_4 (tensor [8, 4, 64] Float) (tensor [8, 1, 1, 32] Float)
       (tensor [8, 1, 1, 32] Float)
   \<and> fwd test_kernel (tensor [8, 4, 64] Float) (tensor [8, 1, 1, 32] Float)
       (tensor [8, 1, 1, 32] Float) False 0 = (Inl (Error ''expected 4D tensor''), 0)
   \<and> bwd test_kernel (tensor [8, 4, 64] Float) (tensor [8, 1, 1, 32] Float)
       (tensor [8, 1, 1, 32] Float) False 0 = (Inl (Error ''expected 4D tensor''), 0)
   \<and> ranks_are_4 (tensor [8, 2, 4, 64] Float) (tensor [8, 1, 1, 32] Float)
       (tensor [8, 1, 1, 32] Float)
   \<and> size_dim (tensor [8, 2, 4, 64] Float) 3 \<noteq> Inl IndexError"
proof -
  have bad: "\<not> ranks_are_4 (tensor [8, 4, 64] Float) (tensor [8, 1, 1, 32] Float)
      (tensor [8, 1, 1, 32] Float)"
    by (simp add: ranks_are_4_def rank_def tensor_def)
  have good: "ranks_are_4 (tensor [8, 2, 4, 64] Float) (tensor [8, 1, 1, 32] Float)
      (tensor [8, 1, 1, 32] Float)"
    by (simp add: ranks_are_4_def rank_def tensor_def)
  have "size_dim (tensor [8, 4, 64] Float) 3 = Inl IndexError"
    by (simp add: size_dim_def dim_def tensor_def)
  moreover have "fwd test_kernel (tensor [8, 4, 64] Float) (tensor [8, 1, 1, 32] Float)
       (tensor [8, 1, 1, 32] Float) False 0 = (Inl (Error ''expected 4D tensor''), 0)
     \<and> bwd test_kernel (tensor [8, 4, 64] Float) (tensor [8, 1, 1, 32] Float)
       (tensor [8, 1, 1, 32] Float) False 0 = (Inl (Error ''expected 4D tensor''), 0)"
    using no_out_of_range_dimension_access
      [of test_kernel "tensor [8, 4, 64] Float" "tensor [8, 1, 1, 32] Float"
        "tensor [8, 1, 1, 32] Float" False 0] bad
    by blast
  moreover have "size_dim (tensor [8, 2, 4, 64] Float) 3 \<noteq> Inl IndexError"
    using no_out_of_range_dimension_access
      [of test_kernel "tensor [8, 2, 4, 64] Float" "tensor [8, 1, 1, 32] Float"
        "tensor [8, 1, 1, 32] Float" False 0] good
    by blast
  ultimately show ?thesis
    using bad good by simp
qed

subsection \<open>What the validation does not read\<close>

lemma section3_input_dtype:
  "section3_invariants (input\<lparr>scalar_type := ty\<rparr>) cos sin = section3_invariants input cos sin"
  by (simp add: section3_invariants_def ranks_are_4_def rank_def
      size0_def size1_def size2_def size3_def)

lemma section3_mixed_dtypes:
  "section3_invariants (tensor [8, 2, 4, 64] Half) (tensor [8, 1, 1, 32] Float)
     (tensor [8, 1, 1, 32] Float)"
  by (simp add: section3_invariants_def ranks_are_4_def rank_def tensor_def dtype_def
      size0_def size1_def size2_def size3_def)

lemma section3_split_dtype:
  "section3_invariants input cos sin \<longleftrightarrow>
     invariants_but_dtype input cos sin \<and> dtype cos = dtype sin"
  by (auto simp: section3_invariants_def invariants_but_dtype_def)

lemma dtype_first_violation:
  "invariants_but_dtype input cos sin \<Longrightarrow> dtype cos \<noteq> dtype sin \<Longrightarrow>
     first_violation input cos sin = Some DtypeEqual"
  by (simp add: first_violation_chain invariants_but_dtype_def ranks_are_4_def)

lemma but_dtype_mixed:
  "invariants_but_dtype (tensor [8, 2, 4, 64] Half) (tensor [8, 1, 1, 32] Float)
     (tensor [8, 1, 1, 32] Half)"
  by (simp add: invariants_but_dtype_def ranks_are_4_def rank_def tensor_def
      size0_def size1_def size2_def size3_def)

text \<open>
  C9. The validation of \<open>fwd\<close> does not read the element type of Input, and reads those of
  Cos and Sin only to compare them with each other: two calls on tensors of the same
  sizes, in which Cos and Sin agree in element type in both calls or in neither, have one
  outcome. So a call that satisfies the invariants of section 3 goes through to the
  kernel, with its arguments as given, also when the element type of Input is not that of
  Cos. The element types of Cos and Sin are compared: when every other invariant of
  section 3 holds, \<open>fwd\<close> raises exactly when the two differ, whatever the element type of
  Input is, with the message of the element type check, and the kernel is not called.
\<close>

theorem fwd_ignores_input_dtype:
  "(sizes input' = sizes input \<and> sizes cos' = sizes cos \<and> sizes sin' = sizes sin
      \<and> (scalar_type cos' = scalar_type sin' \<longleftrightarrow> scalar_type cos = scalar_type sin) \<longrightarrow>
      validation_outcome (fwd k input' cos' sin' t w) =
        validation_outcome (fwd k input cos sin t w))
   \<and> (section3_invariants input cos sin \<and> dtype input \<noteq> dtype cos \<longrightarrow>
        validation_outcome (fwd k input cos sin t w) = None
        \<and> fwd (spy k) input cos sin t (log, w) =
            (Inr (fst (k input cos sin t w)),
             (log @ [(input, cos, sin, t)], snd (k input cos sin t w))))
   \<and> (invariants_but_dtype input cos sin \<longrightarrow>
        ((\<exists>e. fst (fwd k input cos sin t w) = Inl e) \<longleftrightarrow> dtype cos \<noteq> dtype sin))
   \<and> (invariants_but_dtype input cos sin \<and> dtype cos \<noteq> dtype sin \<longrightarrow>
        fwd k input cos sin t w =
          (Inl (Error ''expected cos and sin tensor have the same dtype''), w)
        \<and> fwd (spy k) input cos sin t (log, w) =
          (Inl (Error ''expected cos and sin tensor have the same dtype''), (log, w)))"
proof (intro conjI impI)
  assume "sizes input' = sizes input \<and> sizes cos' = sizes cos \<and> sizes sin' = sizes sin
      \<and> (scalar_type cos' = scalar_type sin' \<longleftrightarrow> scalar_type cos = scalar_type sin)"
  then have "first_violation input' cos' sin' = first_violation input cos sin"
    by (intro first_violation_metadata) blast+
  then show "validation_outcome (fwd k input' cos' sin' t w) =
      validation_outcome (fwd k input cos sin t w)"
    by (simp add: validation_outcome_fwd)
next
  assume *: "section3_invariants input cos sin \<and> dtype input \<noteq> dtype cos"
  then show "validation_outcome (fwd k input cos sin t w) = None"
    by (simp add: validation_outcome_fwd first_violation_None)
  from * show "fwd (spy k) input cos sin t (log, w) =
      (Inr (fst (k input cos sin t w)),
       (log @ [(input, cos, sin, t)], snd (k input cos sin t w)))"
    by (simp add: fwd_valid delegated_spy)
next
  assume other: "invariants_but_dtype input cos sin"
  show "(\<exists>e. fst (fwd k input cos sin t w) = Inl e) \<longleftrightarrow> dtype cos \<noteq> dtype sin"
  proof (cases "dtype cos = dtype sin")
    case True
    with other have "section3_invariants input cos sin"
      by (simp add: section3_split_dtype)
    with True show ?thesis
      by (simp add: fwd_valid delegated_def)
  next
    case False
    from dtype_first_violation [OF other False] False show ?thesis
      by (simp add: fwd_invalid)
  qed
next
  assume "invariants_but_dtype input cos sin \<and> dtype cos \<noteq> dtype sin"
  then have v: "first_violation input cos sin = Some DtypeEqual"
    by (simp add: dtype_first_violation)
  then show "fwd k input cos sin t w =
      (Inl (Error ''expected cos and sin tensor have the same dtype''), w)"
    by (simp add: fwd_invalid)
  from v show "fwd (spy k) input cos sin t (log, w) =
      (Inl (Error ''expected cos and sin tensor have the same dtype''), (log, w))"
    by (simp add: fwd_invalid)
qed

text \<open>
  Input of 16-bit floats, Cos and Sin of 32-bit floats: the kernel is called. Input and
  Sin of 16-bit floats, Cos of 32-bit floats (the fourth scenario of the specification):
  rejected with the message of the element type check, and no call is recorded.
\<close>

theorem fwd_ignores_input_dtype_witness:
  "section3_invariants (tensor [8, 2, 4, 64] Half) (tensor [8, 1, 1, 32] Float)
     (tensor [8, 1, 1, 32] Float)
   \<and> dtype (tensor [8, 2, 4, 64] Half) \<noteq> dtype (tensor [8, 1, 1, 32] Float)
   \<and> fwd (spy test_kernel) (tensor [8, 2, 4, 64] Half) (tensor [8, 1, 1, 32] Float)
       (tensor [8, 1, 1, 32] Float) False ([], 0) =
       (Inr (tensor [8, 2, 4, 64] Half),
        ([(tensor [8, 2, 4, 64] Half, tensor [8, 1, 1, 32] Float,
           tensor [8, 1, 1, 32] Float, False)], 1))
   \<and> invariants_but_dtype (tensor [8, 2, 4, 64] Half) (tensor [8, 1, 1, 32] Float)
       (tensor [8, 1, 1, 32] Half)
   \<and> dtype (tensor [8, 1, 1, 32] Float) \<noteq> dtype (tensor [8, 1, 1, 32] Half)
   \<and> fwd (spy test_kernel) (tensor [8, 2, 4, 64] Half) (tensor [8, 1, 1, 32] Float)
       (tensor [8, 1, 1, 32] Half) False ([], 0) =
       (Inl (Error ''expected cos and sin tensor have the same dtype''), ([], 0))"
proof -
  have d: "dtype (tensor [8, 2, 4, 64] Half) \<noteq> dtype (tensor [8, 1, 1, 32] Float)"
    by (simp add: dtype_def tensor_def)
  have d': "dtype (tensor [8, 1, 1, 32] Float) \<noteq> dtype (tensor [8, 1, 1, 32] Half)"
    by (simp add: dtype_def tensor_def)
  have "fwd (spy test_kernel) (tensor [8, 2, 4, 64] Half) (tensor [8, 1, 1, 32] Float)
       (tensor [8, 1, 1, 32] Float) False ([], 0) =
       (Inr (fst (test_kernel (tensor [8, 2, 4, 64] Half) (tensor [8, 1, 1, 32] Float)
          (tensor [8, 1, 1, 32] Float) False 0)),
        ([] @ [(tensor [8, 2, 4, 64] Half, tensor [8, 1, 1, 32] Float,
           tensor [8, 1, 1, 32] Float, False)],
         snd (test_kernel (tensor [8, 2, 4, 64] Half) (tensor [8, 1, 1, 32] Float)
          (tensor [8, 1, 1, 32] Float) False 0)))"
    using fwd_ignores_input_dtype
      [of "tensor [8, 2, 4, 64] Half" "tensor [8, 2, 4, 64] Half"
        "tensor [8, 1, 1, 32] Float" "tensor [8, 1, 1, 32] Float"
        "tensor [8, 1, 1, 32] Float" "tensor [8, 1, 1, 32] Float"
        test_kernel False 0 "[]"]
      section3_mixed_dtypes d
    by blast
  then have accepted: "fwd (spy test_kernel) (tensor [8, 2, 4, 64] Half)
       (tensor [8, 1, 1, 32] Float) (tensor [8, 1, 1, 32] Float) False ([], 0) =
       (Inr (tensor [8, 2, 4, 64] Half),
        ([(tensor [8, 2, 4, 64] Half, tensor [8, 1, 1, 32] Float,
           tensor [8, 1, 1, 32] Float, False)], 1))"
    by (simp add: test_kernel_def tensor_def)
  have rejected: "fwd (spy test_kernel) (tensor [8, 2, 4, 64] Half)
       (tensor [8, 1, 1, 32] Float) (tensor [8, 1, 1, 32] Half) False ([], 0) =
       (Inl (Error ''expected cos and sin tensor have the same dtype''), ([], 0))"
    using fwd_ignores_input_dtype
      [of "tensor [8, 2, 4, 64] Half" "tensor [8, 2, 4, 64] Half"
        "tensor [8, 1, 1, 32] Float" "tensor [8, 1, 1, 32] Float"
        "tensor [8, 1, 1, 32] Half" "tensor [8, 1, 1, 32] Half"
        test_kernel False 0 "[]"]
      but_dtype_mixed d'
    by blast
  from accepted rejected section3_mixed_dtypes but_dtype_mixed d d'
  show ?thesis by blast
qed

lemma first_violation_batch_heads:
  "first_violation (input\<lparr>sizes := (sizes input)[1 := batch, 2 := heads]\<rparr>) cos sin =
     first_violation input cos sin"
  by (simp add: first_violation_chain rank_def size0_def size3_def)

text \<open>
  C10. The outcome of the validation of \<open>fwd\<close> does not depend on the flag nor on
  dimensions 1 and 2 of Input: a call with another flag, and with any other sizes in
  these two dimensions, has the same outcome. A call that fails gives the same result
  whatever the flag is, and a call that passes hands the flag to the kernel as given.
\<close>

theorem fwd_ignores_flag_batch_heads:
  "validation_outcome
       (fwd k (input\<lparr>sizes := (sizes input)[1 := batch, 2 := heads]\<rparr>) cos sin t' w) =
     validation_outcome (fwd k input cos sin t w)
   \<and> (validation_outcome (fwd k input cos sin t w) \<noteq> None \<longrightarrow>
        fwd k input cos sin t' w = fwd k input cos sin t w)
   \<and> (validation_outcome (fwd k input cos sin t w) = None \<longrightarrow>
        fwd (spy k) input cos sin t (log, w) =
          (Inr (fst (k input cos sin t w)),
           (log @ [(input, cos, sin, t)], snd (k input cos sin t w))))"
proof (intro conjI impI)
  show "validation_outcome
       (fwd k (input\<lparr>sizes := (sizes input)[1 := batch, 2 := heads]\<rparr>) cos sin t' w) =
     validation_outcome (fwd k input cos sin t w)"
    by (simp only: validation_outcome_fwd first_violation_batch_heads)
next
  assume "validation_outcome (fwd k input cos sin t w) \<noteq> None"
  then obtain v where "first_violation input cos sin = Some v"
    by (auto simp: validation_outcome_fwd)
  then show "fwd k input cos sin t' w = fwd k input cos sin t w"
    by (simp add: fwd_invalid)
next
  assume "validation_outcome (fwd k input cos sin t w) = None"
  then have "section3_invariants input cos sin"
    by (simp add: validation_outcome_fwd first_violation_None)
  then show "fwd (spy k) input cos sin t (log, w) =
      (Inr (fst (k input cos sin t w)),
       (log @ [(input, cos, sin, t)], snd (k input cos sin t w)))"
    by (simp add: fwd_valid delegated_spy)
qed

text \<open>
  The third scenario of the specification, with batch 5 and heads 7 in the place of 2 and
  4 and with the flag set: rejected as before, with the message of the width check.
\<close>

theorem fwd_ignores_flag_batch_heads_witness:
  "validation_outcome (fwd test_kernel (tensor [8, 5, 7, 16] Float)
       (tensor [8, 1, 1, 32] Float) (tensor [8, 1, 1, 32] Float) True 0) =
     Some (Error ''expected the last dim of the input tensor equals or is greater than the cos tensor'')
   \<and> validation_outcome (fwd test_kernel (tensor [8, 2, 4, 16] Float)
       (tensor [8, 1, 1, 32] Float) (tensor [8, 1, 1, 32] Float) False 0) =
     Some (Error ''expected the last dim of the input tensor equals or is greater than the cos tensor'')"
proof -
  have "size3 (tensor [8, 2, 4, 16] Float) < size3 (tensor [8, 1, 1, 32] Float)"
    by (simp add: size3_def tensor_def)
  then have "first_violation (tensor [8, 2, 4, 16] Float) (tensor [8, 1, 1, 32] Float)
      (tensor [8, 1, 1, 32] Float) = Some WidthOrder"
    by (rule width_first_violation [OF but_width_scenario3])
  then have *: "validation_outcome (fwd test_kernel (tensor [8, 2, 4, 16] Float)
       (tensor [8, 1, 1, 32] Float) (tensor [8, 1, 1, 32] Float) False 0) =
     Some (Error ''expected the last dim of the input tensor equals or is greater than the cos tensor'')"
    by (simp add: validation_outcome_fwd)
  have "(tensor [8, 2, 4, 16] Float)\<lparr>sizes := (sizes (tensor [8, 2, 4, 16] Float))[1 := 5, 2 := 7]\<rparr> =
      tensor [8, 5, 7, 16] Float"
    by (simp add: tensor_def)
  with fwd_ignores_flag_batch_heads
    [of test_kernel "tensor [8, 2, 4, 16] Float" 5 7 "tensor [8, 1, 1, 32] Float"
      "tensor [8, 1, 1, 32] Float" True 0 False "[]"] *
  show ?thesis by simp
qed

end
